theory Spec2Isabelle
  imports Main
begin

section \<open>Python values\<close>

text \<open>
  The values the two demo programs handle are the values a JSON document decodes to and
  the values of the configuration fields: \<open>None\<close>, booleans, integers, floats, strings,
  lists and dictionaries with string keys. A dictionary is a partial map: \<open>d k = None\<close>
  is Python's \<open>k not in d\<close>, and \<open>d k = Some PNone\<close> is a key that is present and holds
  Python's \<open>None\<close>. A float is an IEEE double (\<open>NaN\<close> and the infinities, which
  \<^verbatim>\<open>json.load\<close> accepts, among them); no function below looks inside one, so the type
  is left abstract.
\<close>

typedecl float64

datatype pyval =
    PNone
  | PBool bool
  | PInt int
  | PFloat float64
  | PStr string
  | PList "pyval list"
  | PDict "string \<Rightarrow> pyval option"

type_synonym pydict = "string \<Rightarrow> pyval option"

text \<open>
  An exception is given by its class. The classes named are those the code catches or
  raises itself and those \<^verbatim>\<open>open\<close> and \<^verbatim>\<open>json.load\<close> most often raise;
  \<open>OtherException\<close> carries the name of any other class. A handler
  \<^verbatim>\<open>except C\<close> catches the class \<open>C\<close>: none of the other classes here is a subclass
  of \<open>FileNotFoundError\<close> or of \<open>JSONDecodeError\<close>.
\<close>

datatype exn =
    FileNotFoundError
  | NotADirectoryError
  | IsADirectoryError
  | PermissionError
  | UnicodeDecodeError
  | JSONDecodeError
  | RecursionError
  | ValueError
  | AttributeError
  | OtherException string

section \<open>examples/simple-project/src/utils.py\<close>

text \<open>
  \<^verbatim>\<open>if prefix:\<close> tests the truth value of an \<open>Optional[str]\<close>: \<open>None\<close> and the
  empty string are false, every other string is true.
\<close>

fun truthy :: "string option \<Rightarrow> bool" where
  "truthy None = False"
| "truthy (Some s) = (s \<noteq> [])"

text \<open>
  \<^verbatim>\<open>
  def format_message(message, prefix=None):
      if prefix:
          return f"{prefix} {message}"
      return message
  \<close>
\<close>

text \<open>How an f-string renders an \<open>Optional[str]\<close>: \<open>None\<close> prints as the word None.\<close>

fun render :: "string option \<Rightarrow> string" where
  "render None = ''None''"
| "render (Some s) = s"

definition format_message :: "string \<Rightarrow> string option \<Rightarrow> string" where
  "format_message message prefix =
     (if truthy prefix then render prefix @ '' '' @ message else message)"

text \<open>
  \<^verbatim>\<open>
  required_keys = ["version", "environment"]
  for key in required_keys:
      if key not in config_dict:
          return False
  return True
  \<close>
  The loop is \<open>validate_loop\<close>; the values stored in the dictionary are never read, so
  the function is polymorphic in their type.
\<close>

definition required_keys :: "string list" where
  "required_keys = [''version'', ''environment'']"

fun validate_loop :: "string list \<Rightarrow> (string \<Rightarrow> 'v option) \<Rightarrow> bool" where
  "validate_loop [] config_dict = True"
| "validate_loop (key # keys) config_dict =
     (if config_dict key = None then False else validate_loop keys config_dict)"

definition validate_config :: "(string \<Rightarrow> 'v option) \<Rightarrow> bool" where
  "validate_config config_dict = validate_loop required_keys config_dict"

text \<open>\<^verbatim>\<open>dict.get(key, default)\<close>: the stored value when the key is present, else the default.\<close>

definition dict_get :: "pydict \<Rightarrow> string \<Rightarrow> pyval \<Rightarrow> pyval" where
  "dict_get d key dflt = (case d key of None \<Rightarrow> dflt | Some v \<Rightarrow> v)"

text \<open>\<^verbatim>\<open>def safe_get(dictionary, key, default=None): return dictionary.get(key, default)\<close>\<close>

definition safe_get :: "pydict \<Rightarrow> string \<Rightarrow> pyval \<Rightarrow> pyval" where
  "safe_get dictionary key dflt = dict_get dictionary key dflt"

section \<open>examples/simple-project/src/config.py\<close>

text \<open>
  The process environment is a partial map from variable names to values.
  \<^verbatim>\<open>os.getenv(key, default)\<close> returns the value of a variable that is set, also
  when that value is the empty string, and the default otherwise.
\<close>

type_synonym environ = "string \<Rightarrow> string option"

definition getenv :: "environ \<Rightarrow> string \<Rightarrow> string \<Rightarrow> string" where
  "getenv env key dflt = (case env key of None \<Rightarrow> dflt | Some v \<Rightarrow> v)"

text \<open>
  \<^verbatim>\<open>str.lower()\<close>. A \<open>char\<close> is a byte of the UTF-8 text: the ASCII capitals
  \<open>A\<close> to \<open>Z\<close> (65 to 90) move to \<open>a\<close> to \<open>z\<close>, every other byte stays. Python also
  lowers capitals outside ASCII; none of them lowers to an ASCII letter of the word
  \<open>true\<close>, so the comparison in \<open>Config_init\<close> reads the same.
\<close>

definition lower_char :: "char \<Rightarrow> char" where
  "lower_char c =
     (let n = (of_char c :: nat) in if 65 \<le> n \<and> n \<le> 90 then char_of (n + 32) else c)"

definition lower :: "string \<Rightarrow> string" where
  "lower s = map lower_char s"

text \<open>
  \<^verbatim>\<open>
  class Config:
      def __init__(self):
          self.version = "1.0.0"
          self.environment = os.getenv("ENVIRONMENT", "development")
          self.debug = os.getenv("DEBUG", "true").lower() == "true"
          self.message_prefix = os.getenv("MESSAGE_PREFIX", "[DEMO]")
  \<close>
\<close>

record Config =
  version :: string
  environment :: string
  debug :: bool
  message_prefix :: string

definition Config_init :: "environ \<Rightarrow> Config" where
  "Config_init env =
     \<lparr> version = ''1.0.0'',
       environment = getenv env ''ENVIRONMENT'' ''development'',
       debug = (lower (getenv env ''DEBUG'' ''true'') = ''true''),
       message_prefix = getenv env ''MESSAGE_PREFIX'' ''[DEMO]'' \<rparr>"

text \<open>\<^verbatim>\<open>Config.to_dict\<close>: a dictionary of the four attributes.\<close>

definition to_dict :: "Config \<Rightarrow> pydict" where
  "to_dict self =
     [''version'' \<mapsto> PStr (version self),
      ''environment'' \<mapsto> PStr (environment self),
      ''debug'' \<mapsto> PBool (debug self),
      ''message_prefix'' \<mapsto> PStr (message_prefix self)]"

section \<open>src/app.py\<close>

text \<open>
  \<^verbatim>\<open>
  def _load_config(self, config_path):
      try:
          with open(config_path, 'r') as f:
              config = json.load(f)
          return config
      except FileNotFoundError:
          return {"version": "1.0.0", "environment": "development", "debug": True}
      except json.JSONDecodeError as e:
          return {}
  \<close>
  \<^verbatim>\<open>open\<close> and \<^verbatim>\<open>json.load\<close> belong to the standard library, not to this
  program, so the loader takes them as arguments: \<open>open_r path\<close> is what
  \<^verbatim>\<open>open(path, 'r')\<close> does, returning a file object or raising, and \<open>json_load f\<close>
  is what the \<^verbatim>\<open>with\<close> statement does on that file object
  (\<^verbatim>\<open>json.load(f)\<close>, then closing \<open>f\<close>), returning the decoded value (any JSON
  value, not only an object) or raising. Nothing is assumed
  of either, and the type of file objects is left open. The two handlers catch two
  classes; an exception of any other class leaves the function. The logger's messages
  are not modelled.
\<close>

definition load_config ::
  "(string \<Rightarrow> exn + 'f) \<Rightarrow> ('f \<Rightarrow> exn + pyval) \<Rightarrow> string \<Rightarrow> exn + pyval" where
  "load_config open_r json_load config_path =
     (case (case open_r config_path of Inl e \<Rightarrow> Inl e | Inr f \<Rightarrow> json_load f) of
        Inr config \<Rightarrow> Inr config
      | Inl FileNotFoundError \<Rightarrow>
          Inr (PDict [''version'' \<mapsto> PStr ''1.0.0'',
                      ''environment'' \<mapsto> PStr ''development'',
                      ''debug'' \<mapsto> PBool True])
      | Inl JSONDecodeError \<Rightarrow> Inr (PDict Map.empty)
      | Inl e \<Rightarrow> Inl e)"

text \<open>
  \<^verbatim>\<open>config.get(key, default)\<close> on what \<open>_load_config\<close> returned: of the JSON values
  only a dictionary has a \<open>get\<close> method, the others raise \<open>AttributeError\<close>.
\<close>

definition py_get :: "pyval \<Rightarrow> string \<Rightarrow> pyval \<Rightarrow> exn + pyval" where
  "py_get obj key dflt =
     (case obj of PDict d \<Rightarrow> Inr (dict_get d key dflt) | _ \<Rightarrow> Inl AttributeError)"

text \<open>
  \<^verbatim>\<open>
  def __init__(self, config_path="src/config.json"):
      self.config = self._load_config(config_path)
      self.version = self.config.get("version", "1.0.0")
  \<close>
\<close>

record AzureDevOpsApp =
  config :: pyval
  version :: pyval

definition AzureDevOpsApp_init ::
  "(string \<Rightarrow> exn + 'f) \<Rightarrow> ('f \<Rightarrow> exn + pyval) \<Rightarrow> string \<Rightarrow> exn + AzureDevOpsApp" where
  "AzureDevOpsApp_init open_r json_load config_path =
     (case load_config open_r json_load config_path of
        Inl e \<Rightarrow> Inl e
      | Inr cfg \<Rightarrow>
          (case py_get cfg ''version'' (PStr ''1.0.0'') of
             Inl e \<Rightarrow> Inl e
           | Inr v \<Rightarrow> Inr \<lparr> config = cfg, version = v \<rparr>))"

text \<open>
  \<^verbatim>\<open>
  def get_status(self):
      return {"status": "healthy", "version": self.version,
              "timestamp": datetime.now().isoformat(),
              "environment": self.config.get("environment", "unknown")}
  \<close>
  The clock is an argument: \<open>now\<close> is the string \<^verbatim>\<open>datetime.now().isoformat()\<close>
  returns at the call.
\<close>

definition get_status :: "AzureDevOpsApp \<Rightarrow> string \<Rightarrow> exn + pydict" where
  "get_status self now =
     (case py_get (config self) ''environment'' (PStr ''unknown'') of
        Inl e \<Rightarrow> Inl e
      | Inr env \<Rightarrow>
          Inr [''status'' \<mapsto> PStr ''healthy'',
               ''version'' \<mapsto> AzureDevOpsApp.version self,
               ''timestamp'' \<mapsto> PStr now,
               ''environment'' \<mapsto> env])"

text \<open>
  \<^verbatim>\<open>
  def process_data(self, data):
      processed_data = {"original_data": data,
                        "processed_at": datetime.now().isoformat(),
                        "status": "processed", "version": self.version}
      return processed_data
  \<close>
\<close>

definition process_data :: "AzureDevOpsApp \<Rightarrow> pyval \<Rightarrow> string \<Rightarrow> pydict" where
  "process_data self data now =
     [''original_data'' \<mapsto> data,
      ''processed_at'' \<mapsto> PStr now,
      ''status'' \<mapsto> PStr ''processed'',
      ''version'' \<mapsto> AzureDevOpsApp.version self]"

text \<open>
  For the examples: an \<open>open\<close> that finds nothing at any path, whose answer the
  examples change at one path. In the examples a file object is given by what decoding
  it yields, so that \<open>json_load\<close> is the identity there.
\<close>

definition no_files :: "string \<Rightarrow> exn + exn + pyval" where
  "no_files = (\<lambda>path. Inl FileNotFoundError)"

section \<open>Properties of utils.py\<close>

text \<open>
  C3: for every message, \<open>format_message\<close> returns the message unchanged when the prefix is
  absent (\<open>None\<close>) or the empty string, and returns exactly prefix, one space, message
  when the prefix is a non-empty string.
\<close>

theorem format_message_spec:
  "format_message message None = message \<and>
   format_message message (Some []) = message \<and>
   (prefix \<noteq> [] \<longrightarrow> format_message message (Some prefix) = prefix @ '' '' @ message)"
  by (simp add: format_message_def)

theorem format_message_spec_witness:
  "format_message ''Hello World'' None = ''Hello World'' \<and>
   format_message ''Hello World'' (Some []) = ''Hello World'' \<and>
   ''[TEST]'' \<noteq> [] \<and>
   format_message ''Hello World'' (Some ''[TEST]'') = ''[TEST] Hello World''"
  using format_message_spec [of "''Hello World''" "''[TEST]''"] by simp

text \<open>
  C4: for every mapping, \<open>validate_config\<close> is true exactly when both the key
  \<open>version\<close> and the key \<open>environment\<close> are present, whatever the type of the stored
  values (the function is polymorphic in it), whatever the values themselves and whatever
  other keys the mapping has; it is false on the empty mapping and on a mapping that
  lacks either key.
\<close>

theorem validate_config_spec:
  fixes config_dict :: "string \<Rightarrow> 'v option"
  shows
  "(validate_config config_dict \<longleftrightarrow>
      ''version'' \<in> dom config_dict \<and> ''environment'' \<in> dom config_dict) \<and>
   validate_config (config_dict(''version'' \<mapsto> v, ''environment'' \<mapsto> e)) \<and>
   (extra \<noteq> ''version'' \<and> extra \<noteq> ''environment'' \<longrightarrow>
      validate_config (config_dict(extra := x)) = validate_config config_dict) \<and>
   \<not> validate_config (Map.empty :: string \<Rightarrow> 'v option) \<and>
   (config_dict ''version'' = None \<or> config_dict ''environment'' = None
      \<longrightarrow> \<not> validate_config config_dict)"
  by (auto simp add: validate_config_def required_keys_def)

theorem validate_config_spec_witness:
  "validate_config [''debug'' \<mapsto> PBool True, ''version'' \<mapsto> PInt 7, ''environment'' \<mapsto> PNone] \<and>
   ''debug'' \<noteq> ''version'' \<and> ''debug'' \<noteq> ''environment'' \<and>
   validate_config [''environment'' \<mapsto> PStr ''test'', ''debug'' \<mapsto> PBool True]
     = validate_config [''environment'' \<mapsto> PStr ''test''] \<and>
   \<not> validate_config (Map.empty :: pydict) \<and>
   [''environment'' \<mapsto> PStr ''test''] ''version'' = None \<and>
   \<not> validate_config [''environment'' \<mapsto> PStr ''test'']"
  using validate_config_spec
          [where config_dict = "[''debug'' \<mapsto> PBool True]" and v = "PInt 7" and e = PNone
             and extra = "''debug''" and x = None]
        validate_config_spec
          [where config_dict = "[''environment'' \<mapsto> PStr ''test'']" and v = PNone and e = PNone
             and extra = "''debug''" and x = "Some (PBool True)"]
  by simp

text \<open>
  C5: for every dictionary, key and default, \<open>safe_get\<close> returns the value stored under
  the key when the key is present, also when that value is \<open>None\<close> (the default does
  not replace a stored \<open>None\<close>), and returns the default when the key is absent.
\<close>

theorem safe_get_spec:
  "(dictionary key = Some v \<longrightarrow> safe_get dictionary key dflt = v) \<and>
   (dictionary key = Some PNone \<longrightarrow> safe_get dictionary key dflt = PNone) \<and>
   (dictionary key = None \<longrightarrow> safe_get dictionary key dflt = dflt)"
  by (simp add: safe_get_def dict_get_def)

theorem safe_get_spec_witness:
  "[''key1'' \<mapsto> PNone] ''key1'' = Some PNone \<and>
   safe_get [''key1'' \<mapsto> PNone] ''key1'' (PStr ''default'') = PNone \<and>
   [''key1'' \<mapsto> PStr ''value1''] ''key2'' = None \<and>
   safe_get [''key1'' \<mapsto> PStr ''value1''] ''key2'' (PStr ''default_value'') = PStr ''default_value''"
  using safe_get_spec [of "[''key1'' \<mapsto> PNone]" "''key1''" PNone "PStr ''default''"]
        safe_get_spec [of "[''key1'' \<mapsto> PStr ''value1'']" "''key2''" PNone "PStr ''default_value''"]
  by simp

section \<open>Properties of config.py\<close>

lemma char_eq_of_char: "c = d \<longleftrightarrow> (of_char c :: nat) = of_char d"
  by simp

lemma lower_char_true_letters:
  "lower_char c = CHR ''t'' \<longleftrightarrow> c = CHR ''t'' \<or> c = CHR ''T''"
  "lower_char c = CHR ''r'' \<longleftrightarrow> c = CHR ''r'' \<or> c = CHR ''R''"
  "lower_char c = CHR ''u'' \<longleftrightarrow> c = CHR ''u'' \<or> c = CHR ''U''"
  "lower_char c = CHR ''e'' \<longleftrightarrow> c = CHR ''e'' \<or> c = CHR ''E''"
  unfolding lower_char_def Let_def
    char_eq_of_char [of _ "CHR ''t''"] char_eq_of_char [of _ "CHR ''T''"]
    char_eq_of_char [of _ "CHR ''r''"] char_eq_of_char [of _ "CHR ''R''"]
    char_eq_of_char [of _ "CHR ''u''"] char_eq_of_char [of _ "CHR ''U''"]
    char_eq_of_char [of _ "CHR ''e''"] char_eq_of_char [of _ "CHR ''E''"]
  by (auto simp add: take_bit_eq_mod split: if_splits)

lemma lower_eq_true_iff:
  "lower s = ''true'' \<longleftrightarrow>
     (\<exists>a b c d. s = [a, b, c, d] \<and>
        (a = CHR ''t'' \<or> a = CHR ''T'') \<and> (b = CHR ''r'' \<or> b = CHR ''R'') \<and>
        (c = CHR ''u'' \<or> c = CHR ''U'') \<and> (d = CHR ''e'' \<or> d = CHR ''E''))"
proof -
  have "lower s = ''true'' \<longleftrightarrow>
          (\<exists>a b c d. s = [a, b, c, d] \<and> lower_char a = CHR ''t'' \<and> lower_char b = CHR ''r'' \<and>
             lower_char c = CHR ''u'' \<and> lower_char d = CHR ''e'')"
    unfolding lower_def by (auto simp add: map_eq_Cons_conv)
  then show ?thesis
    by (simp only: lower_char_true_letters)
qed

lemma lower_examples:
  "lower ''true'' = ''true''" "lower ''TRUE'' = ''true''" "lower ''TrUe'' = ''true''"
  "lower ''false'' = ''false''" "lower ''1'' = ''1''" "lower [] = []"
  by (simp_all add: lower_def lower_char_def char_of_eq_iff)

text \<open>
  C2, as the code has it: on construction the resolver reads three environment variables,
  \<open>ENVIRONMENT\<close>, \<open>DEBUG\<close> and \<open>MESSAGE_PREFIX\<close>. A variable that is set gives its
  value to the field, one that is absent gives the default: \<open>development\<close>, \<open>true\<close>
  (lowered and compared with \<open>true\<close>) and \<open>[DEMO]\<close>. The version field is the
  constant \<open>1.0.0\<close>: it is read from no environment variable, so two environments
  never differ in it.
\<close>

theorem Config_init_spec:
  "Config.version (Config_init env) = ''1.0.0'' \<and>
   Config.version (Config_init env) = Config.version (Config_init env') \<and>
   (env ''ENVIRONMENT'' = None \<longrightarrow> environment (Config_init env) = ''development'') \<and>
   (env ''ENVIRONMENT'' = Some e \<longrightarrow> environment (Config_init env) = e) \<and>
   (env ''DEBUG'' = None \<longrightarrow> debug (Config_init env)) \<and>
   (env ''DEBUG'' = Some d \<longrightarrow> debug (Config_init env) = (lower d = ''true'')) \<and>
   (env ''MESSAGE_PREFIX'' = None \<longrightarrow> message_prefix (Config_init env) = ''[DEMO]'') \<and>
   (env ''MESSAGE_PREFIX'' = Some m \<longrightarrow> message_prefix (Config_init env) = m)"
  by (simp add: Config_init_def getenv_def lower_examples)

theorem Config_init_spec_witness:
  "Config.version (Config_init [''ENVIRONMENT'' \<mapsto> ''production'', ''DEBUG'' \<mapsto> ''False'']) = ''1.0.0'' \<and>
   environment (Config_init [''ENVIRONMENT'' \<mapsto> ''production'', ''DEBUG'' \<mapsto> ''False'']) = ''production'' \<and>
   debug (Config_init [''ENVIRONMENT'' \<mapsto> ''production'', ''DEBUG'' \<mapsto> ''False'']) = False \<and>
   message_prefix (Config_init [''ENVIRONMENT'' \<mapsto> ''production'', ''DEBUG'' \<mapsto> ''False'']) = ''[DEMO]''"
  using Config_init_spec
          [where env = "[''ENVIRONMENT'' \<mapsto> ''production'', ''DEBUG'' \<mapsto> ''False'']"
             and env' = Map.empty and e = "''production''" and d = "''False''" and m = "[]"]
  by (simp add: lower_def lower_char_def char_of_eq_iff)

text \<open>
  The claim as the spec words it has a fourth variable that determines the version when
  it is set. With \<open>VERSION\<close> (and every other variable the resolver knows) set, the
  version is still \<open>1.0.0\<close>.
\<close>

theorem Config_init_version_counterexample:
  "Config.version
     (Config_init [''VERSION'' \<mapsto> ''2.0.0'', ''ENVIRONMENT'' \<mapsto> ''production'',
                   ''DEBUG'' \<mapsto> ''false'', ''MESSAGE_PREFIX'' \<mapsto> ''[PROD]'']) = ''1.0.0'' \<and>
   Config.version
     (Config_init [''VERSION'' \<mapsto> ''2.0.0'', ''ENVIRONMENT'' \<mapsto> ''production'',
                   ''DEBUG'' \<mapsto> ''false'', ''MESSAGE_PREFIX'' \<mapsto> ''[PROD]'']) \<noteq> ''2.0.0''"
  by (simp add: Config_init_def)

text \<open>
  C7: the debug field is true exactly when the value of \<open>DEBUG\<close>, or the string
  \<open>true\<close> when the variable is absent, is the word \<open>true\<close> up to the case of its four
  letters. So debug is true when \<open>DEBUG\<close> is unset, and false for every other string,
  such as \<open>false\<close> or \<open>1\<close>.
\<close>

theorem Config_debug_spec:
  "(debug (Config_init env) \<longleftrightarrow>
      (\<exists>a b c d. (case env ''DEBUG'' of None \<Rightarrow> ''true'' | Some s \<Rightarrow> s) = [a, b, c, d] \<and>
         (a = CHR ''t'' \<or> a = CHR ''T'') \<and> (b = CHR ''r'' \<or> b = CHR ''R'') \<and>
         (c = CHR ''u'' \<or> c = CHR ''U'') \<and> (d = CHR ''e'' \<or> d = CHR ''E''))) \<and>
   (env ''DEBUG'' = None \<longrightarrow> debug (Config_init env)) \<and>
   (env ''DEBUG'' = Some ''false'' \<longrightarrow> \<not> debug (Config_init env)) \<and>
   (env ''DEBUG'' = Some ''1'' \<longrightarrow> \<not> debug (Config_init env))"
proof -
  have d: "debug (Config_init env) = (lower (case env ''DEBUG'' of None \<Rightarrow> ''true'' | Some s \<Rightarrow> s) = ''true'')"
    by (simp add: Config_init_def getenv_def)
  show ?thesis
    unfolding d lower_eq_true_iff by simp
qed

theorem Config_debug_spec_witness:
  "debug (Config_init Map.empty) \<and>
   debug (Config_init [''DEBUG'' \<mapsto> ''TrUe'']) \<and>
   \<not> debug (Config_init [''DEBUG'' \<mapsto> ''false'']) \<and>
   \<not> debug (Config_init [''DEBUG'' \<mapsto> ''1''])"
  using Config_debug_spec [of Map.empty] Config_debug_spec [of "[''DEBUG'' \<mapsto> ''TrUe'']"]
        Config_debug_spec [of "[''DEBUG'' \<mapsto> ''false'']"] Config_debug_spec [of "[''DEBUG'' \<mapsto> ''1'']"]
  by simp

text \<open>
  C8: for every environment, also the one with no variable set, the mapping view of the
  settings has exactly the four keys \<open>version\<close>, \<open>environment\<close>, \<open>debug\<close> and
  \<open>message_prefix\<close>; the debug entry is a boolean and the three others are strings.
\<close>

theorem to_dict_populated:
  "dom (to_dict (Config_init env)) = {''version'', ''environment'', ''debug'', ''message_prefix''} \<and>
   (\<exists>b. to_dict (Config_init env) ''debug'' = Some (PBool b)) \<and>
   (\<exists>v. to_dict (Config_init env) ''version'' = Some (PStr v)) \<and>
   (\<exists>e. to_dict (Config_init env) ''environment'' = Some (PStr e)) \<and>
   (\<exists>m. to_dict (Config_init env) ''message_prefix'' = Some (PStr m))"
  by (auto simp add: to_dict_def)

theorem to_dict_populated_witness:
  "dom (to_dict (Config_init Map.empty)) = {''version'', ''environment'', ''debug'', ''message_prefix''} \<and>
   to_dict (Config_init Map.empty) ''debug'' = Some (PBool True) \<and>
   to_dict (Config_init Map.empty) ''version'' = Some (PStr ''1.0.0'') \<and>
   to_dict (Config_init Map.empty) ''environment'' = Some (PStr ''development'') \<and>
   to_dict (Config_init Map.empty) ''message_prefix'' = Some (PStr ''[DEMO]'')"
  using to_dict_populated [of Map.empty]
  by (simp add: to_dict_def Config_init_def getenv_def lower_examples)

text \<open>
  C9: for every environment, the mapping view of the settings passes the validation
  helper, since the constructor always fills the version and the environment.
\<close>

theorem validate_config_to_dict:
  "validate_config (to_dict (Config_init env))"
  by (simp add: validate_config_def required_keys_def to_dict_def)

theorem validate_config_to_dict_witness:
  "validate_config (to_dict (Config_init Map.empty)) \<and>
   validate_config (to_dict (Config_init [''ENVIRONMENT'' \<mapsto> [], ''DEBUG'' \<mapsto> ''0'']))"
  using validate_config_to_dict [of Map.empty]
        validate_config_to_dict [of "[''ENVIRONMENT'' \<mapsto> [], ''DEBUG'' \<mapsto> ''0'']"]
  by simp

section \<open>Properties of app.py\<close>

lemma load_config_cases:
  "load_config open_r json_load p =
     (case open_r p of
        Inl e \<Rightarrow>
          (if e = FileNotFoundError
           then Inr (PDict [''version'' \<mapsto> PStr ''1.0.0'',
                  ''environment'' \<mapsto> PStr ''development'', ''debug'' \<mapsto> PBool True])
           else if e = JSONDecodeError then Inr (PDict Map.empty) else Inl e)
      | Inr f \<Rightarrow>
          (case json_load f of
             Inr v \<Rightarrow> Inr v
           | Inl e \<Rightarrow>
               (if e = FileNotFoundError
                then Inr (PDict [''version'' \<mapsto> PStr ''1.0.0'',
                       ''environment'' \<mapsto> PStr ''development'', ''debug'' \<mapsto> PBool True])
                else if e = JSONDecodeError then Inr (PDict Map.empty) else Inl e)))"
  by (simp add: load_config_def split: sum.split exn.split)

text \<open>
  C1, as the code has it: for every path, and whatever \<open>open\<close> and \<open>json.load\<close> do,
  the loader returns the three-field default record when \<open>open\<close> raises
  \<open>FileNotFoundError\<close> (no file at the path), the empty mapping when \<open>json.load\<close>
  raises \<open>JSONDecodeError\<close> (the content is not valid JSON), and the decoded value
  when both succeed. Neither \<open>FileNotFoundError\<close> nor \<open>JSONDecodeError\<close> ever reaches
  the caller. Every other exception does: the loader raises an exception exactly when
  \<open>open\<close> or \<open>json.load\<close> raised it and it is of neither class.
\<close>

theorem load_config_spec:
  "(open_r p = Inl FileNotFoundError \<longrightarrow>
      load_config open_r json_load p = Inr (PDict [''version'' \<mapsto> PStr ''1.0.0'',
         ''environment'' \<mapsto> PStr ''development'', ''debug'' \<mapsto> PBool True])) \<and>
   (open_r p = Inr f \<and> json_load f = Inl JSONDecodeError \<longrightarrow>
      load_config open_r json_load p = Inr (PDict Map.empty)) \<and>
   (open_r p = Inr f \<and> json_load f = Inr v \<longrightarrow> load_config open_r json_load p = Inr v) \<and>
   load_config open_r json_load p \<noteq> Inl FileNotFoundError \<and>
   load_config open_r json_load p \<noteq> Inl JSONDecodeError \<and>
   (load_config open_r json_load p = Inl e \<longleftrightarrow>
      e \<noteq> FileNotFoundError \<and> e \<noteq> JSONDecodeError \<and>
      (open_r p = Inl e \<or> (\<exists>g. open_r p = Inr g \<and> json_load g = Inl e)))"
  unfolding load_config_cases
  by (auto split: sum.splits)

theorem load_config_spec_witness:
  "no_files ''src/config.json'' = Inl FileNotFoundError \<and>
   load_config no_files id ''src/config.json'' =
     Inr (PDict [''version'' \<mapsto> PStr ''1.0.0'',
        ''environment'' \<mapsto> PStr ''development'', ''debug'' \<mapsto> PBool True]) \<and>
   (no_files(''src/config.json'' := Inr (Inl JSONDecodeError))) ''src/config.json''
     = Inr (Inl JSONDecodeError) \<and>
   id (Inl JSONDecodeError :: exn + pyval) = Inl JSONDecodeError \<and>
   load_config (no_files(''src/config.json'' := Inr (Inl JSONDecodeError))) id ''src/config.json''
     = Inr (PDict Map.empty) \<and>
   load_config (no_files(''src/config.json'' := Inr (Inr (PList [])))) id ''src/config.json''
     = Inr (PList []) \<and>
   load_config (no_files(''src/config.json'' := Inr (Inl RecursionError))) id ''src/config.json''
     = Inl RecursionError"
  using load_config_spec
          [where open_r = no_files and json_load = id and p = "''src/config.json''"
             and f = "Inl JSONDecodeError" and v = PNone and e = PermissionError]
        load_config_spec
          [where open_r = "no_files(''src/config.json'' := Inr (Inl JSONDecodeError))"
             and json_load = id and p = "''src/config.json''"
             and f = "Inl JSONDecodeError" and v = PNone and e = PermissionError]
        load_config_spec
          [where open_r = "no_files(''src/config.json'' := Inr (Inr (PList [])))"
             and json_load = id and p = "''src/config.json''"
             and f = "Inr (PList [])" and v = "PList []" and e = PermissionError]
        load_config_spec
          [where open_r = "no_files(''src/config.json'' := Inr (Inl RecursionError))"
             and json_load = id and p = "''src/config.json''"
             and f = "Inl RecursionError" and v = PNone and e = RecursionError]
  by (simp add: no_files_def)

text \<open>
  The claim as the spec words it has the loader never raise. When the path names a
  directory, here the program's own \<open>src\<close>, \<open>open\<close> raises \<open>IsADirectoryError\<close>,
  which neither handler catches.
\<close>

theorem load_config_raises_counterexample:
  "load_config (no_files(''src'' := Inl IsADirectoryError)) id ''src'' = Inl IsADirectoryError"
  by (simp add: load_config_def)

text \<open>
  C6, as the code has it: for every input value, and whatever version the application
  captured, \<open>process_data\<close> returns a mapping of exactly four fields: \<open>original_data\<close>
  holds the input unchanged, \<open>processed_at\<close> the timestamp, \<open>status\<close> the literal
  \<open>processed\<close> and \<open>version\<close> the captured version.
\<close>

theorem process_data_spec:
  "dom (process_data self data now)
     = {''original_data'', ''processed_at'', ''status'', ''version''} \<and>
   process_data self data now ''original_data'' = Some data \<and>
   process_data self data now ''processed_at'' = Some (PStr now) \<and>
   process_data self data now ''status'' = Some (PStr ''processed'') \<and>
   process_data self data now ''version'' = Some (AzureDevOpsApp.version self)"
  by (auto simp add: process_data_def)

theorem process_data_spec_witness:
  "dom (process_data \<lparr>config = PDict Map.empty, version = PStr ''1.0.0''\<rparr>
          (PDict [''user_id'' \<mapsto> PInt 12345]) ''2024-01-01T00:00:00'')
     = {''original_data'', ''processed_at'', ''status'', ''version''} \<and>
   process_data \<lparr>config = PDict Map.empty, version = PStr ''1.0.0''\<rparr>
     (PDict [''user_id'' \<mapsto> PInt 12345]) ''2024-01-01T00:00:00'' ''original_data''
     = Some (PDict [''user_id'' \<mapsto> PInt 12345]) \<and>
   process_data \<lparr>config = PDict Map.empty, version = PStr ''1.0.0''\<rparr>
     (PDict [''user_id'' \<mapsto> PInt 12345]) ''2024-01-01T00:00:00'' ''version''
     = Some (PStr ''1.0.0'')"
  using process_data_spec
          [of "\<lparr>config = PDict Map.empty, version = PStr ''1.0.0''\<rparr>"
              "PDict [''user_id'' \<mapsto> PInt 12345]" "''2024-01-01T00:00:00''"]
  by simp

text \<open>
  The claim as the spec words it names the field that holds the input \<open>original\<close>. The
  record has no field of that name.
\<close>

theorem process_data_original_counterexample:
  "process_data \<lparr>config = PDict Map.empty, version = PStr ''1.0.0''\<rparr>
     (PDict [''user_id'' \<mapsto> PInt 12345]) ''2024-01-01T00:00:00'' ''original'' = None"
  by (simp add: process_data_def)

lemma init_config_is_dict:
  assumes "AzureDevOpsApp_init open_r json_load path = Inr app"
  shows "\<exists>d. config app = PDict d \<and> load_config open_r json_load path = Inr (PDict d) \<and>
           AzureDevOpsApp.version app = dict_get d ''version'' (PStr ''1.0.0'')"
  using assms
  by (auto simp add: AzureDevOpsApp_init_def py_get_def split: sum.splits pyval.splits)

lemma get_status_dict:
  "config app = PDict d \<Longrightarrow>
   get_status app now =
     Inr [''status'' \<mapsto> PStr ''healthy'', ''version'' \<mapsto> AzureDevOpsApp.version app,
          ''timestamp'' \<mapsto> PStr now,
          ''environment'' \<mapsto> dict_get d ''environment'' (PStr ''unknown'')]"
  by (simp add: get_status_def py_get_def)

text \<open>
  C10, as the code has it: \<open>get_status\<close> never raises on an application that
  construction produced, and its result has the four fields \<open>status\<close>, \<open>version\<close>,
  \<open>timestamp\<close> and \<open>environment\<close>. When the resolved config has no \<open>environment\<close>
  key the environment reported is the literal \<open>unknown\<close>, otherwise the stored value.
  The version reported is the one captured at construction: \<open>1.0.0\<close> when the config
  has no \<open>version\<close> key, otherwise the stored value. After a malformed-JSON load the
  config is the empty mapping, so the status reports \<open>1.0.0\<close> and \<open>unknown\<close>.
\<close>

theorem get_status_spec:
  "(\<forall>app. AzureDevOpsApp_init open_r json_load path = Inr app \<longrightarrow>
      (\<exists>d st. config app = PDict d \<and> get_status app now = Inr st \<and>
         dom st = {''status'', ''version'', ''timestamp'', ''environment''} \<and>
         st ''status'' = Some (PStr ''healthy'') \<and>
         st ''timestamp'' = Some (PStr now) \<and>
         (d ''environment'' = None \<longrightarrow> st ''environment'' = Some (PStr ''unknown'')) \<and>
         (\<forall>e. d ''environment'' = Some e \<longrightarrow> st ''environment'' = Some e) \<and>
         (d ''version'' = None \<longrightarrow> st ''version'' = Some (PStr ''1.0.0'')) \<and>
         (\<forall>v. d ''version'' = Some v \<longrightarrow> st ''version'' = Some v))) \<and>
   (open_r path = Inr f \<and> json_load f = Inl JSONDecodeError \<longrightarrow>
      AzureDevOpsApp_init open_r json_load path = Inr \<lparr>config = PDict Map.empty, version = PStr ''1.0.0''\<rparr> \<and>
      get_status \<lparr>config = PDict Map.empty, version = PStr ''1.0.0''\<rparr> now =
        Inr [''status'' \<mapsto> PStr ''healthy'', ''version'' \<mapsto> PStr ''1.0.0'',
             ''timestamp'' \<mapsto> PStr now, ''environment'' \<mapsto> PStr ''unknown''])"
proof (intro conjI allI impI)
  fix app
  assume "AzureDevOpsApp_init open_r json_load path = Inr app"
  then obtain d where d: "config app = PDict d"
    and v: "AzureDevOpsApp.version app = dict_get d ''version'' (PStr ''1.0.0'')"
    using init_config_is_dict by blast
  let ?st = "[''status'' \<mapsto> PStr ''healthy'', ''version'' \<mapsto> AzureDevOpsApp.version app,
              ''timestamp'' \<mapsto> PStr now,
              ''environment'' \<mapsto> dict_get d ''environment'' (PStr ''unknown'')]"
  have st: "get_status app now = Inr ?st"
    using d by (rule get_status_dict)
  have keys: "dom ?st = {''status'', ''version'', ''timestamp'', ''environment''}"
    by auto
  have env: "d ''environment'' = None \<longrightarrow> ?st ''environment'' = Some (PStr ''unknown'')"
    "\<forall>e. d ''environment'' = Some e \<longrightarrow> ?st ''environment'' = Some e"
    by (simp_all add: dict_get_def)
  have ver: "d ''version'' = None \<longrightarrow> ?st ''version'' = Some (PStr ''1.0.0'')"
    "\<forall>v. d ''version'' = Some v \<longrightarrow> ?st ''version'' = Some v"
    by (simp_all add: v dict_get_def)
  show "\<exists>d st. config app = PDict d \<and> get_status app now = Inr st \<and>
         dom st = {''status'', ''version'', ''timestamp'', ''environment''} \<and>
         st ''status'' = Some (PStr ''healthy'') \<and>
         st ''timestamp'' = Some (PStr now) \<and>
         (d ''environment'' = None \<longrightarrow> st ''environment'' = Some (PStr ''unknown'')) \<and>
         (\<forall>e. d ''environment'' = Some e \<longrightarrow> st ''environment'' = Some e) \<and>
         (d ''version'' = None \<longrightarrow> st ''version'' = Some (PStr ''1.0.0'')) \<and>
         (\<forall>v. d ''version'' = Some v \<longrightarrow> st ''version'' = Some v)"
  proof (rule exI [of _ d], rule exI [of _ ?st], intro conjI)
    show "config app = PDict d" by (rule d)
    show "get_status app now = Inr ?st" by (rule st)
    show "dom ?st = {''status'', ''version'', ''timestamp'', ''environment''}" by (rule keys)
    show "?st ''status'' = Some (PStr ''healthy'')" by simp
    show "?st ''timestamp'' = Some (PStr now)" by simp
    show "d ''environment'' = None \<longrightarrow> ?st ''environment'' = Some (PStr ''unknown'')"
      by (rule env(1))
    show "\<forall>e. d ''environment'' = Some e \<longrightarrow> ?st ''environment'' = Some e"
      by (rule env(2))
    show "d ''version'' = None \<longrightarrow> ?st ''version'' = Some (PStr ''1.0.0'')"
      by (rule ver(1))
    show "\<forall>v. d ''version'' = Some v \<longrightarrow> ?st ''version'' = Some v"
      by (rule ver(2))
  qed
next
  assume "open_r path = Inr f \<and> json_load f = Inl JSONDecodeError"
  then show "AzureDevOpsApp_init open_r json_load path = Inr \<lparr>config = PDict Map.empty, version = PStr ''1.0.0''\<rparr>"
    by (simp add: AzureDevOpsApp_init_def load_config_cases py_get_def dict_get_def)
next
  show "get_status \<lparr>config = PDict Map.empty, version = PStr ''1.0.0''\<rparr> now =
        Inr [''status'' \<mapsto> PStr ''healthy'', ''version'' \<mapsto> PStr ''1.0.0'',
             ''timestamp'' \<mapsto> PStr now, ''environment'' \<mapsto> PStr ''unknown'']"
    by (simp add: get_status_def py_get_def dict_get_def)
qed

theorem get_status_spec_witness:
  "(no_files(''src/config.json'' := Inr (Inl JSONDecodeError))) ''src/config.json''
     = Inr (Inl JSONDecodeError) \<and>
   id (Inl JSONDecodeError :: exn + pyval) = Inl JSONDecodeError \<and>
   AzureDevOpsApp_init (no_files(''src/config.json'' := Inr (Inl JSONDecodeError))) id
     ''src/config.json''
     = Inr \<lparr>config = PDict Map.empty, version = PStr ''1.0.0''\<rparr> \<and>
   get_status \<lparr>config = PDict Map.empty, version = PStr ''1.0.0''\<rparr> ''2024-01-01T00:00:00'' =
     Inr [''status'' \<mapsto> PStr ''healthy'', ''version'' \<mapsto> PStr ''1.0.0'',
          ''timestamp'' \<mapsto> PStr ''2024-01-01T00:00:00'', ''environment'' \<mapsto> PStr ''unknown'']"
  using get_status_spec
          [where open_r = "no_files(''src/config.json'' := Inr (Inl JSONDecodeError))"
             and json_load = id and path = "''src/config.json''"
             and now = "''2024-01-01T00:00:00''" and f = "Inl JSONDecodeError"]
  by simp

text \<open>
  The claim as it is worded has the version fall back to \<open>1.0.0\<close> whenever the config
  has no \<open>environment\<close> key. A config file that holds only a version has no such key,
  and the status reports that version.
\<close>

theorem get_status_version_counterexample:
  "AzureDevOpsApp_init
     (no_files(''src/config.json'' := Inr (Inr (PDict [''version'' \<mapsto> PStr ''2.0.0'']))))
     id ''src/config.json''
     = Inr \<lparr>config = PDict [''version'' \<mapsto> PStr ''2.0.0''], version = PStr ''2.0.0''\<rparr> \<and>
   [''version'' \<mapsto> PStr ''2.0.0''] ''environment'' = None \<and>
   get_status \<lparr>config = PDict [''version'' \<mapsto> PStr ''2.0.0''], version = PStr ''2.0.0''\<rparr>
     ''2024-01-01T00:00:00'' =
     Inr [''status'' \<mapsto> PStr ''healthy'', ''version'' \<mapsto> PStr ''2.0.0'',
          ''timestamp'' \<mapsto> PStr ''2024-01-01T00:00:00'', ''environment'' \<mapsto> PStr ''unknown''] \<and>
   PStr ''2.0.0'' \<noteq> PStr ''1.0.0''"
  by (simp add: AzureDevOpsApp_init_def load_config_cases get_status_def py_get_def dict_get_def)

text \<open>
  A JSON document that is not an object never becomes a resolved config: the constructor
  raises on it, so no application exists for \<open>get_status\<close> to be called on.
\<close>

lemma init_raises_on_non_object:
  "AzureDevOpsApp_init (no_files(''src/config.json'' := Inr (Inr (PList [])))) id
     ''src/config.json'' = Inl AttributeError"
  by (simp add: AzureDevOpsApp_init_def load_config_cases py_get_def)

end
